theory Spec2Isabelle
  imports Main "HOL-Library.Word"
begin

unbundle bit_operations_syntax

section \<open>Go values shared by the packages\<close>

text \<open>
  A Go \<open>error\<close> value is identified by its message. A call either comes back with a
  value (\<open>Done\<close>) or unwinds with \<open>panic(err)\<close> (\<open>Panic\<close>). A Go \<open>string\<close> is a
  sequence of bytes, as is an Isabelle \<open>string\<close>; the conversions \<open>[]byte(s)\<close> and
  \<open>string(b)\<close> keep the bytes and are left implicit for text. Raw binary buffers are
  lists of 8-bit words.
\<close>

datatype error = Error string

datatype 'a go = Done 'a | Panic error

type_synonym byte = "8 word"

type_synonym uint = "64 word"

type_synonym float64 = "64 word"

datatype json =
    JNull
  | JBool bool
  | JNumber float64
  | JString string
  | JArray "json list"
  | JObject "(string \<times> json) list"

section \<open>Standard library: crypto/rand, encoding/base64, strings, time\<close>

text \<open>
  \<open>rand.Read(b)\<close> either fills the whole of \<open>b\<close> and returns a nil error, or returns
  a non-nil error. The system source is an input of the model: it is either failing with
  some error or delivering a stream of bytes.
\<close>

datatype rand_Reader = Failing error | Entropy "nat \<Rightarrow> byte"

definition rand_Read :: "rand_Reader \<Rightarrow> byte list \<Rightarrow> byte list \<times> error option" where
  "rand_Read src b =
     (case src of
        Failing e \<Rightarrow> (b, Some e)
      | Entropy f \<Rightarrow> (map f [0..<length b], None))"

text \<open>\<open>make([]byte, n)\<close>: a zeroed buffer; a negative length is a run-time panic.\<close>

definition make_bytes :: "int \<Rightarrow> byte list go" where
  "make_bytes n =
     (if n < 0 then Panic (Error ''makeslice: len out of range'')
      else Done (replicate (nat n) 0))"

text \<open>
  \<open>base64.URLEncoding\<close> is the RFC 4648 URL-safe alphabet with the standard padding
  character \<open>=\<close> (the unpadded variant is the separate \<open>RawURLEncoding\<close>).
  \<open>EncodeToString\<close> turns each group of three bytes into four alphabet characters; a
  trailing group of two bytes gives three characters and one pad, a trailing single byte
  two characters and two pads.
\<close>

definition encodeURL :: string where
  "encodeURL = ''ABCDEFGHIJKLMNOPQRSTUVWXYZabcdefghijklmnopqrstuvwxyz0123456789-_''"

definition StdPadding :: char where
  "StdPadding = CHR ''=''"

definition encode_at :: "uint \<Rightarrow> nat \<Rightarrow> char" where
  "encode_at val k = encodeURL ! unat (drop_bit k val AND 0x3F)"

fun URLEncoding_EncodeToString :: "byte list \<Rightarrow> string" where
  "URLEncoding_EncodeToString (a # b # c # src) =
     (let val = push_bit 16 (ucast a) OR push_bit 8 (ucast b) OR ucast c
      in [encode_at val 18, encode_at val 12, encode_at val 6, encode_at val 0]
           @ URLEncoding_EncodeToString src)"
| "URLEncoding_EncodeToString [a, b] =
     (let val = push_bit 16 (ucast a) OR push_bit 8 (ucast b)
      in [encode_at val 18, encode_at val 12, encode_at val 6, StdPadding])"
| "URLEncoding_EncodeToString [a] =
     (let val = push_bit 16 (ucast a)
      in [encode_at val 18, encode_at val 12, StdPadding, StdPadding])"
| "URLEncoding_EncodeToString [] = []"

text \<open>
  \<open>strings.Split(s, sep)\<close> for a one-byte separator, the only way the repository calls
  it: the pieces of \<open>s\<close> between consecutive separators, so one piece more than there
  are separators, and \<open>[""]\<close> for the empty string.
\<close>

fun strings_Split :: "string \<Rightarrow> char \<Rightarrow> string list" where
  "strings_Split [] sep = [[]]"
| "strings_Split (x # xs) sep =
     (if x = sep then [] # strings_Split xs sep
      else (case strings_Split xs sep of
              [] \<Rightarrow> [[x]]
            | p # ps \<Rightarrow> (x # p) # ps))"

text \<open>\<open>strings.Join(pieces, sep)\<close>, the inverse of splitting.\<close>

fun strings_Join :: "string list \<Rightarrow> char \<Rightarrow> string" where
  "strings_Join [] sep = []"
| "strings_Join [p] sep = p"
| "strings_Join (p # q # ps) sep = p @ sep # strings_Join (q # ps) sep"

text \<open>
  \<open>time.Time\<close> as the instant it denotes: seconds since January 1 of year 1, 00:00:00
  UTC, and nanoseconds within the second. \<open>IsZero\<close> reads exactly these two.
\<close>

record Time =
  sec :: int
  nsec :: int

definition IsZero :: "Time \<Rightarrow> bool" where
  "IsZero t \<longleftrightarrow> sec t = 0 \<and> nsec t = 0"

definition zero_Time :: Time where
  "zero_Time = \<lparr>sec = 0, nsec = 0\<rparr>"

section \<open>golang.org/x/crypto/bcrypt as an interface\<close>

text \<open>
  The hashing library is an input of the model. \<open>GenerateFromPassword\<close> returns a hash
  or an error (the salt it draws is part of the library's behaviour in the call);
  \<open>CompareHashAndPassword\<close> returns nil (\<open>None\<close>) exactly when it accepts the pair.
  \<open>bcrypt_verifies\<close> is the library's contract that a generated hash is accepted for
  the password it was generated from.
\<close>

record bcrypt =
  GenerateFromPassword :: "string \<Rightarrow> int \<Rightarrow> error + string"
  CompareHashAndPassword :: "string \<Rightarrow> string \<Rightarrow> error option"

definition DefaultCost :: int where
  "DefaultCost = 10"

definition bcrypt_verifies :: "bcrypt \<Rightarrow> bool" where
  "bcrypt_verifies bc \<longleftrightarrow>
     (\<forall>password cost hash.
        GenerateFromPassword bc password cost = Inr hash \<longrightarrow>
        CompareHashAndPassword bc hash password = None)"

section \<open>Package models\<close>

text \<open>
  \<open>gorm.DeletedAt\<close> is a nullable time: \<open>None\<close> when the row is not soft-deleted.
\<close>

record Base =
  ID :: uint
  CreatedAt :: Time
  UpdatedAt :: Time
  DeletedAt :: "Time option"

record Permission = Base +
  Name :: string
  Description :: string

record Role = Base +
  Name :: string
  Permissions :: "Permission list"

type_synonym SeatStatus = string

record Seat = Base +
  OrganizationID :: uint
  UserID :: uint
  Roles :: "Role list"
  Status :: SeatStatus

type_synonym JSONMap = "(string \<times> json) list"

record ActivityLog = Base +
  UserID :: uint
  OrganizationID :: uint
  ActivityType :: string
  Timestamp :: Time
  Metadata :: JSONMap

record NotificationPreference = Base +
  UserID :: uint
  EmailEnabled :: bool
  SMSEnabled :: bool
  InAppEnabled :: bool
  BillingEmails :: bool
  ProductEmails :: bool
  MarketingEmails :: bool

record Feature = Base +
  Name :: string
  Description :: string

record SubscriptionPlan = Base +
  Name :: string
  Description :: string
  Price :: float64
  Currency :: string
  Interval :: string
  Features :: "Feature list"

record PaymentTransaction = Base +
  SubscriptionID :: uint
  Amount :: float64
  Currency :: string
  Status :: string
  Gateway :: string
  GatewayID :: string
  Timestamp :: Time

text \<open>
  \<open>Organization\<close> and \<open>User\<close> refer to each other; the organization type is a
  parameter of \<open>User\<close>, which none of the hooks reads or writes.
\<close>

record 'org User = Base +
  Email :: string
  Password :: string
  PasswordHash :: string
  Name :: string
  Roles :: "Role list"
  Organizations :: "'org list"
  Seats :: "Seat list"
  Permissions :: "Permission list"
  VerificationCode :: string
  Verified :: bool
  ActivityLogs :: "ActivityLog list"
  NotificationPrefs :: NotificationPreference
  Locale :: string
  Timezone :: string
  Language :: string

type_synonym SubscriptionStatus = string

definition SubscriptionStatusTrialing :: SubscriptionStatus where
  "SubscriptionStatusTrialing = ''trialing''"

definition UserRole :: string where
  "UserRole = ''user''"

definition AdminRole :: string where
  "AdminRole = ''admin''"

record Subscription = Base +
  OrganizationID :: uint
  SubscriptionPlan :: SubscriptionPlan
  Status :: SubscriptionStatus
  StartDate :: Time
  EndDate :: Time
  Transactions :: "PaymentTransaction list"
  PaymentMethod :: string
  LastPaymentDate :: Time
  NextBillingDate :: Time

record APIKey = Base +
  UserID :: uint
  OrganizationID :: uint
  Key :: string
  Name :: string
  Permissions :: "string list"
  ExpiresAt :: Time
  LastUsedAt :: Time

text \<open>
  \<open>tx.Statement.Changed(field)\<close> is answered by the ORM; the hooks only read it.
\<close>

record gorm_DB =
  Statement_Changed :: "string \<Rightarrow> bool"

subsection \<open>generateRandomString\<close>

definition generateRandomString :: "rand_Reader \<Rightarrow> int \<Rightarrow> string go" where
  "generateRandomString src len =
     (case make_bytes len of
        Panic p \<Rightarrow> Panic p
      | Done bytes \<Rightarrow>
          (case rand_Read src bytes of
             (bytes', Some err) \<Rightarrow> Panic err
           | (bytes', None) \<Rightarrow> Done (URLEncoding_EncodeToString bytes')))"

subsection \<open>User hooks\<close>

text \<open>
  A method on a pointer receiver returns its error together with the receiver as the call
  left it.
\<close>

definition hashPassword :: "bcrypt \<Rightarrow> 'org User \<Rightarrow> error option \<times> 'org User" where
  "hashPassword bc u =
     (if Password u \<noteq> '''' then
        (case GenerateFromPassword bc (Password u) DefaultCost of
           Inl err \<Rightarrow> (Some err, u)
         | Inr hashedPassword \<Rightarrow>
             (None, u\<lparr>PasswordHash := hashedPassword, Password := ''''\<rparr>))
      else (None, u))"

definition User_BeforeCreate ::
  "bcrypt \<Rightarrow> rand_Reader \<Rightarrow> 'org User \<Rightarrow> gorm_DB \<Rightarrow> (error option \<times> 'org User) go" where
  "User_BeforeCreate bc src u tx =
     (case hashPassword bc u of
        (Some err, u1) \<Rightarrow> Done (Some err, u1)
      | (None, u1) \<Rightarrow>
          (case generateRandomString src 32 of
             Panic p \<Rightarrow> Panic p
           | Done code \<Rightarrow> Done (None, u1\<lparr>VerificationCode := code\<rparr>)))"

definition User_BeforeUpdate ::
  "bcrypt \<Rightarrow> 'org User \<Rightarrow> gorm_DB \<Rightarrow> error option \<times> 'org User" where
  "User_BeforeUpdate bc u tx =
     (if Statement_Changed tx ''Password'' then
        (case hashPassword bc u of
           (Some err, u1) \<Rightarrow> (Some err, u1)
         | (None, u1) \<Rightarrow> (None, u1))
      else (None, u))"

subsection \<open>Subscription and APIKey hooks\<close>

text \<open>\<open>now\<close> is the value \<open>time.Now()\<close> returns during the call.\<close>

definition Subscription_BeforeCreate ::
  "Time \<Rightarrow> Subscription \<Rightarrow> gorm_DB \<Rightarrow> error option \<times> Subscription" where
  "Subscription_BeforeCreate now s tx =
     (let s1 = (if Status s = '''' then s\<lparr>Status := SubscriptionStatusTrialing\<rparr> else s);
          s2 = (if IsZero (StartDate s1) then s1\<lparr>StartDate := now\<rparr> else s1)
      in (None, s2))"

definition APIKey_BeforeCreate ::
  "rand_Reader \<Rightarrow> APIKey \<Rightarrow> gorm_DB \<Rightarrow> (error option \<times> APIKey) go" where
  "APIKey_BeforeCreate src k tx =
     (case generateRandomString src 32 of
        Panic p \<Rightarrow> Panic p
      | Done key \<Rightarrow> Done (None, k\<lparr>Key := key\<rparr>))"

section \<open>Package auth\<close>

subsection \<open>github.com/golang-jwt/jwt and gin as interfaces\<close>

text \<open>
  \<open>jwt.Parse(tokenString, keyFunc)\<close> is an input of the model: a function from the
  token string and the key callback to an error or a token. A token carries its signing
  method (the type assertion to \<open>*jwt.SigningMethodHMAC\<close> succeeds on the first
  constructor only), its claims (the assertion to \<open>jwt.MapClaims\<close> likewise) and the
  \<open>Valid\<close> flag. A claim value asserts to \<open>string\<close> exactly when it is present and
  a \<open>JString\<close>.
\<close>

datatype SigningMethod = SigningMethodHMAC string | SigningMethodOther string

datatype jwt_Claims = MapClaims "string \<rightharpoonup> json" | OtherClaims

record jwt_Token =
  Raw :: string
  Method :: SigningMethod
  Header :: "string \<rightharpoonup> json"
  Claims :: jwt_Claims
  Signature :: string
  Valid :: bool

type_synonym Keyfunc = "jwt_Token \<Rightarrow> error + string"

type_synonym jwt_Parse = "string \<Rightarrow> Keyfunc \<Rightarrow> error + jwt_Token"

text \<open>
  Of a \<open>gin.Context\<close> the gates use the request headers (\<open>GetHeader\<close> gives the empty
  string for an absent header), the responses rendered so far and the abort flag.
  \<open>c.Next()\<close> runs the handlers that follow in the chain; they are the parameter
  \<open>rest\<close> of a gate.
\<close>

type_synonym gin_H = "(string \<times> json) list"

record gin_Context =
  Request_Header :: "string \<rightharpoonup> string"
  rendered :: "(nat \<times> gin_H) list"
  aborted :: bool

definition GetHeader :: "gin_Context \<Rightarrow> string \<Rightarrow> string" where
  "GetHeader c key = (case Request_Header c key of None \<Rightarrow> '''' | Some v \<Rightarrow> v)"

definition gin_JSON :: "nat \<Rightarrow> gin_H \<Rightarrow> gin_Context \<Rightarrow> gin_Context" where
  "gin_JSON code obj c = c\<lparr>rendered := rendered c @ [(code, obj)]\<rparr>"

definition gin_Abort :: "gin_Context \<Rightarrow> gin_Context" where
  "gin_Abort c = c\<lparr>aborted := True\<rparr>"

definition StatusUnauthorized :: nat where
  "StatusUnauthorized = 401"

subsection \<open>Token verification and the two gates\<close>

definition jwtKey :: string where
  "jwtKey = ''your-secret-key''"

definition keyFunc :: Keyfunc where
  "keyFunc token =
     (case Method token of
        SigningMethodHMAC alg \<Rightarrow> Inr jwtKey
      | SigningMethodOther alg \<Rightarrow> Inl (Error ''invalid signing method''))"

definition ExtractToken :: "gin_Context \<Rightarrow> string" where
  "ExtractToken c =
     (let bearerToken = GetHeader c ''Authorization''
      in if length (strings_Split bearerToken CHR '' '') = 2
         then strings_Split bearerToken CHR '' '' ! 1
         else '''')"

definition VerifyToken :: "jwt_Parse \<Rightarrow> gin_Context \<Rightarrow> error + string" where
  "VerifyToken parse c =
     (let tokenString = ExtractToken c
      in case parse tokenString keyFunc of
           Inl err \<Rightarrow> Inl err
         | Inr token \<Rightarrow>
             (case Claims token of
                OtherClaims \<Rightarrow> Inl (Error ''invalid token'')
              | MapClaims claims \<Rightarrow>
                  if \<not> Valid token then Inl (Error ''invalid token'')
                  else (case claims ''role'' of
                          Some (JString role) \<Rightarrow> Inr role
                        | _ \<Rightarrow> Inl (Error ''invalid role''))))"

definition unauthorized :: "gin_Context \<Rightarrow> gin_Context" where
  "unauthorized c =
     gin_Abort (gin_JSON StatusUnauthorized [(''error'', JString ''Unauthorized'')] c)"

definition IsUserOrAdmin ::
  "jwt_Parse \<Rightarrow> (gin_Context \<Rightarrow> gin_Context) \<Rightarrow> gin_Context \<Rightarrow> gin_Context" where
  "IsUserOrAdmin parse rest c =
     (case VerifyToken parse c of
        Inl err \<Rightarrow> unauthorized c
      | Inr role \<Rightarrow>
          if role \<noteq> UserRole \<and> role \<noteq> AdminRole then unauthorized c
          else rest c)"

definition AuthMiddleware ::
  "jwt_Parse \<Rightarrow> string \<Rightarrow> (gin_Context \<Rightarrow> gin_Context) \<Rightarrow> gin_Context \<Rightarrow> gin_Context" where
  "AuthMiddleware parse requiredRole rest c =
     (case VerifyToken parse c of
        Inl err \<Rightarrow> unauthorized c
      | Inr role \<Rightarrow>
          if role \<noteq> requiredRole then unauthorized c
          else rest c)"

section \<open>Package main: the default admin\<close>

definition zero_Base :: Base where
  "zero_Base = \<lparr>ID = 0, CreatedAt = zero_Time, UpdatedAt = zero_Time, DeletedAt = None\<rparr>"

definition zero_NotificationPreference :: NotificationPreference where
  "zero_NotificationPreference =
     Base.extend zero_Base
       (NotificationPreference.fields 0 False False False False False False)"

text \<open>The struct literal of \<open>createDefaultAdmin\<close>; every field it omits has its zero value.\<close>

definition admin :: "'org User" where
  "admin =
     Base.extend zero_Base
       (User.fields ''admin'' '''' ''password'' ''Admin User''
          [Base.extend zero_Base (Role.fields ''admin'' [])]
          [] [] [] '''' True [] zero_NotificationPreference '''' '''' '''')"

text \<open>
  \<open>db.Create(value)\<close> first has the ORM parse the schema of the model. When that
  fails (a relation field for which no foreign key can be found, for instance) the
  error is reported, no hook runs and the value is left as it was. Otherwise the
  \<open>BeforeCreate\<close> hook of the value runs and, when it returns nil, the record is handed
  to the INSERT statement, whose error (if any) is reported. The outcome of schema
  parsing is the parameter \<open>schema\<close>, the statement is the parameter \<open>insert_row\<close>.
  \<open>count\<close> is what the \<open>Count\<close> query left in the variable. \<open>log.Fatalf\<close> ends the
  process.
\<close>

definition db_Create ::
  "bcrypt \<Rightarrow> rand_Reader \<Rightarrow> error option \<Rightarrow> ('org User \<Rightarrow> error option) \<Rightarrow> gorm_DB
     \<Rightarrow> 'org User \<Rightarrow> (error option \<times> 'org User) go" where
  "db_Create bc src schema insert_row tx v =
     (case schema of
        Some err \<Rightarrow> Done (Some err, v)
      | None \<Rightarrow>
          (case User_BeforeCreate bc src v tx of
             Panic p \<Rightarrow> Panic p
           | Done (Some err, v1) \<Rightarrow> Done (Some err, v1)
           | Done (None, v1) \<Rightarrow> Done (insert_row v1, v1)))"

datatype 'org startup =
    AdminExists
  | AdminCreated "'org User"
  | Fatal error
  | Panicked error

definition createDefaultAdmin ::
  "bcrypt \<Rightarrow> rand_Reader \<Rightarrow> error option \<Rightarrow> ('org User \<Rightarrow> error option) \<Rightarrow> gorm_DB \<Rightarrow> int
     \<Rightarrow> 'org startup" where
  "createDefaultAdmin bc src schema insert_row tx count =
     (if count = 0 then
        (case db_Create bc src schema insert_row tx admin of
           Panic p \<Rightarrow> Panicked p
         | Done (Some err, stored) \<Rightarrow> Fatal err
         | Done (None, stored) \<Rightarrow> AdminCreated stored)
      else AdminExists)"

section \<open>Instances of the interfaces\<close>

text \<open>
  Concrete libraries and inputs at which the theorems below are instantiated: a hashing
  library that rejects passwords over 72 bytes, a token parser that looks the token
  string up in a table of tokens and asks the key callback for the key, two random
  streams, and a few requests and records.
\<close>

definition sample_bcrypt :: bcrypt where
  "sample_bcrypt =
     \<lparr>GenerateFromPassword = (\<lambda>password cost.
          if 72 < length password then Inl (Error ''bcrypt: password length exceeds 72 bytes'')
          else Inr (''$2a$10$'' @ rev password)),
      CompareHashAndPassword = (\<lambda>hash password.
          if hash = ''$2a$10$'' @ rev password then None
          else Some (Error ''hashedPassword is not the hash of the given password''))\<rparr>"

definition zero_stream :: "nat \<Rightarrow> byte" where
  "zero_stream i = 0"

definition ramp_stream :: "nat \<Rightarrow> byte" where
  "ramp_stream i = of_nat (7 * i + 250)"

definition sample_token :: "SigningMethod \<Rightarrow> jwt_Claims \<Rightarrow> bool \<Rightarrow> jwt_Token" where
  "sample_token method claims valid =
     \<lparr>Raw = '''',
      Method = method,
      Header = [''typ'' \<mapsto> JString ''JWT''],
      Claims = claims,
      Signature = '''',
      Valid = valid\<rparr>"

definition sample_tokens :: "(string \<times> jwt_Token) list" where
  "sample_tokens =
     [(''a.admin.token'',
         sample_token (SigningMethodHMAC ''HS256'')
           (MapClaims [''id'' \<mapsto> JNumber 0, ''role'' \<mapsto> JString ''admin'']) True),
      (''a.user.token'',
         sample_token (SigningMethodHMAC ''HS256'')
           (MapClaims [''id'' \<mapsto> JNumber 0, ''role'' \<mapsto> JString ''user'']) True),
      (''a.guest.token'',
         sample_token (SigningMethodHMAC ''HS256'')
           (MapClaims [''id'' \<mapsto> JNumber 0, ''role'' \<mapsto> JString ''guest'']) True),
      (''a.notvalid.token'',
         sample_token (SigningMethodHMAC ''HS256'')
           (MapClaims [''id'' \<mapsto> JNumber 0, ''role'' \<mapsto> JString ''admin'']) False),
      (''a.registered.token'',
         sample_token (SigningMethodHMAC ''HS256'') OtherClaims True),
      (''a.norole.token'',
         sample_token (SigningMethodHMAC ''HS256'') (MapClaims [''id'' \<mapsto> JNumber 0]) True),
      (''a.numrole.token'',
         sample_token (SigningMethodHMAC ''HS256'')
           (MapClaims [''id'' \<mapsto> JNumber 0, ''role'' \<mapsto> JNumber 1]) True),
      (''a.rsa.token'',
         sample_token (SigningMethodOther ''RS256'')
           (MapClaims [''id'' \<mapsto> JNumber 0, ''role'' \<mapsto> JString ''admin'']) True)]"

definition sample_Parse :: jwt_Parse where
  "sample_Parse tokenString kf =
     (case map_of sample_tokens tokenString of
        None \<Rightarrow> Inl (Error ''token contains an invalid number of segments'')
      | Some token \<Rightarrow>
          (case kf token of
             Inl err \<Rightarrow> Inl err
           | Inr key \<Rightarrow>
               if key = jwtKey then Inr token
               else Inl (Error ''signature is invalid'')))"

definition request :: "string \<Rightarrow> gin_Context" where
  "request authorization =
     \<lparr>Request_Header = [''Authorization'' \<mapsto> authorization], rendered = [], aborted = False\<rparr>"

definition guarded :: "gin_Context \<Rightarrow> gin_Context" where
  "guarded c = gin_JSON 200 [(''ok'', JBool True)] c"

definition no_tx :: gorm_DB where
  "no_tx = \<lparr>Statement_Changed = (\<lambda>field. False)\<rparr>"

definition sample_Subscription :: Subscription where
  "sample_Subscription =
     Base.extend zero_Base
       (Subscription.fields 7
          (Base.extend zero_Base (SubscriptionPlan.fields ''pro'' '''' 0 ''usd'' ''month'' []))
          '''' zero_Time zero_Time [] ''card'' zero_Time zero_Time)"

definition sample_APIKey :: APIKey where
  "sample_APIKey =
     Base.extend zero_Base
       (APIKey.fields 3 7 ''caller-key'' ''ci'' [''read''] \<lparr>sec = 99, nsec = 0\<rparr> \<lparr>sec = 5, nsec = 1\<rparr>)"

section \<open>Properties of the library functions\<close>

subsection \<open>The URL encoding\<close>

lemma unat_and_63: "unat ((w :: uint) AND 0x3F) < 64"
proof -
  have "unat (w AND 0x3F) \<le> unat (0x3F :: uint)"
    by (rule word_and_le1 [THEN word_le_nat_alt [THEN iffD1]])
  then show ?thesis by simp
qed

lemma length_encodeURL: "length encodeURL = 64"
  by (simp add: encodeURL_def)

lemma encode_at_alphabet: "encode_at val k \<in> set encodeURL"
  unfolding encode_at_def
  by (rule nth_mem) (simp add: length_encodeURL unat_and_63)

text \<open>Four output characters for every started group of three input bytes.\<close>

lemma length_EncodeToString:
  "length (URLEncoding_EncodeToString bs) = 4 * ((length bs + 2) div 3)"
proof (induction bs rule: URLEncoding_EncodeToString.induct)
  case (1 a b c src)
  have "(length (a # b # c # src) + 2) div 3 = Suc ((length src + 2) div 3)"
    by simp
  with 1 show ?case by (simp add: Let_def)
qed (simp_all add: Let_def)

text \<open>
  When two bytes are left over, the output ends in exactly one pad after characters of
  the alphabet.
\<close>

lemma EncodeToString_padded:
  "length bs mod 3 = 2 \<Longrightarrow>
     \<exists>body. URLEncoding_EncodeToString bs = body @ [StdPadding] \<and> set body \<subseteq> set encodeURL"
proof (induction bs rule: URLEncoding_EncodeToString.induct)
  case (1 a b c src)
  then have "length src mod 3 = 2" by simp
  with 1 obtain body where
    b: "URLEncoding_EncodeToString src = body @ [StdPadding]" "set body \<subseteq> set encodeURL"
    by blast
  let ?val = "push_bit 16 (ucast a) OR push_bit 8 (ucast b) OR ucast c :: uint"
  let ?head = "[encode_at ?val 18, encode_at ?val 12, encode_at ?val 6, encode_at ?val 0]"
  have "URLEncoding_EncodeToString (a # b # c # src) = (?head @ body) @ [StdPadding]"
    using b(1) by (simp add: Let_def)
  moreover have "set (?head @ body) \<subseteq> set encodeURL"
    using b(2) by (simp add: encode_at_alphabet)
  ultimately show ?case by blast
next
  case (2 a b)
  let ?val = "push_bit 16 (ucast a) OR push_bit 8 (ucast b) :: uint"
  have "URLEncoding_EncodeToString [a, b] =
          [encode_at ?val 18, encode_at ?val 12, encode_at ?val 6] @ [StdPadding]"
    by (simp add: Let_def)
  moreover have "set [encode_at ?val 18, encode_at ?val 12, encode_at ?val 6] \<subseteq> set encodeURL"
    by (simp add: encode_at_alphabet)
  ultimately show ?case by blast
next
  case (3 a)
  then show ?case by simp
next
  case 4
  then show ?case by simp
qed

lemma StdPadding_not_in_alphabet: "StdPadding \<notin> set encodeURL"
  by (simp add: StdPadding_def encodeURL_def)

lemma EncodeToString_32:
  assumes "length bytes = 32"
  shows "length (URLEncoding_EncodeToString bytes) = 44 \<and>
         (\<exists>body. URLEncoding_EncodeToString bytes = body @ [StdPadding] \<and>
                 length body = 43 \<and> set body \<subseteq> set encodeURL)"
proof -
  have len: "length (URLEncoding_EncodeToString bytes) = 44"
    by (simp add: length_EncodeToString assms)
  have "length bytes mod 3 = 2" by (simp add: assms)
  then obtain body where
    b: "URLEncoding_EncodeToString bytes = body @ [StdPadding]" "set body \<subseteq> set encodeURL"
    using EncodeToString_padded by blast
  from len b(1) have "length body = 43" by simp
  with len b show ?thesis by blast
qed

lemma zero_code:
  "URLEncoding_EncodeToString (map zero_stream [0..<32]) =
     ''AAAAAAAAAAAAAAAAAAAAAAAAAAAAAAAAAAAAAAAAAAA=''"
  by (simp add: upt_rec zero_stream_def encode_at_def encodeURL_def StdPadding_def)

subsection \<open>The random source and the generator\<close>

lemma rand_Read_cases:
  "rand_Read src b = (b', None) \<longleftrightarrow> (\<exists>f. src = Entropy f \<and> b' = map f [0..<length b])"
  by (cases src) (auto simp: rand_Read_def)

lemma rand_Read_length: "rand_Read src b = (b', None) \<Longrightarrow> length b' = length b"
  by (auto simp: rand_Read_cases)

lemma generateRandomString_32:
  "generateRandomString src 32 =
     (case rand_Read src (replicate 32 0) of
        (bytes, Some err) \<Rightarrow> Panic err
      | (bytes, None) \<Rightarrow> Done (URLEncoding_EncodeToString bytes))"
  by (simp add: generateRandomString_def make_bytes_def)

lemma generateRandomString_Done:
  "generateRandomString src 32 = Done s \<longleftrightarrow>
     (\<exists>bytes. rand_Read src (replicate 32 0) = (bytes, None) \<and> s = URLEncoding_EncodeToString bytes)"
  by (auto simp: generateRandomString_32 split: prod.splits option.splits)

subsection \<open>Splitting\<close>

lemma strings_Split_nonempty: "strings_Split s sep \<noteq> []"
  by (induction s) (auto split: list.splits)

lemma length_strings_Split: "length (strings_Split s sep) = Suc (count_list s sep)"
  by (induction s) (auto split: list.splits simp: strings_Split_nonempty)

text \<open>No piece contains the separator, and joining the pieces gives the string back.\<close>

lemma strings_Split_pieces: "p \<in> set (strings_Split s sep) \<Longrightarrow> sep \<notin> set p"
  by (induction s arbitrary: p) (auto split: if_splits list.splits)

lemma strings_Join_Split: "strings_Join (strings_Split s sep) sep = s"
proof (induction s)
  case Nil
  then show ?case by simp
next
  case (Cons x xs)
  obtain p ps where ps: "strings_Split xs sep = p # ps"
    using strings_Split_nonempty [of xs sep] by (cases "strings_Split xs sep") auto
  with Cons show ?case by (cases ps) auto
qed

lemma strings_Split_no_sep: "sep \<notin> set s \<Longrightarrow> strings_Split s sep = [s]"
  by (induction s) auto

lemma strings_Split_at_sep:
  "sep \<notin> set a \<Longrightarrow> strings_Split (a @ sep # b) sep = a # strings_Split b sep"
  by (induction a) auto

section \<open>Credential and identity lifecycle\<close>

lemma hashPassword_empty: "Password u = '''' \<Longrightarrow> hashPassword bc u = (None, u)"
  by (simp add: hashPassword_def)

lemma hashPassword_nonempty:
  "Password u \<noteq> '''' \<Longrightarrow>
     hashPassword bc u =
       (case GenerateFromPassword bc (Password u) DefaultCost of
          Inl err \<Rightarrow> (Some err, u)
        | Inr hashedPassword \<Rightarrow> (None, u\<lparr>PasswordHash := hashedPassword, Password := ''''\<rparr>))"
  by (simp add: hashPassword_def)

lemma User_BeforeCreate_Done:
  "User_BeforeCreate bc src u tx = Done (None, u') \<longleftrightarrow>
     (\<exists>u1 bytes. hashPassword bc u = (None, u1) \<and>
        rand_Read src (replicate 32 0) = (bytes, None) \<and>
        u' = u1\<lparr>VerificationCode := URLEncoding_EncodeToString bytes\<rparr>)"
  unfolding User_BeforeCreate_def generateRandomString_32
  by (auto split: prod.splits option.splits)

lemma sample_bcrypt_verifies: "bcrypt_verifies sample_bcrypt"
  by (auto simp: bcrypt_verifies_def sample_bcrypt_def split: if_splits)

lemma no_password_hook_result:
  assumes "Password u = ''''" and "User_BeforeCreate bc src u tx = Done (None, u')"
  shows "\<exists>bytes. rand_Read src (replicate 32 0) = (bytes, None) \<and> length bytes = 32 \<and>
           u' = u\<lparr>VerificationCode := URLEncoding_EncodeToString bytes\<rparr>"
proof -
  from assms obtain bytes where
    r: "rand_Read src (replicate 32 0) = (bytes, None)" and
    u': "u' = u\<lparr>VerificationCode := URLEncoding_EncodeToString bytes\<rparr>"
    unfolding User_BeforeCreate_Done by (auto simp: hashPassword_empty)
  from r have "length bytes = 32" by (auto dest: rand_Read_length)
  with r u' show ?thesis by blast
qed

text \<open>
  Claim C1. Let a User carry a non-empty plaintext \<open>Password\<close>. Whenever the creation
  hook returns nil, the stored \<open>Password\<close> is the empty string and the stored
  \<open>PasswordHash\<close> is the very hash \<open>bcrypt.GenerateFromPassword\<close> returned for the
  original plaintext at the default cost; for a bcrypt library that accepts the hashes
  it generates, \<open>CompareHashAndPassword\<close> accepts the stored hash against the original
  plaintext. When bcrypt hashing fails, the hook returns that error with the record
  untouched, and \<open>db.Create\<close> reports an error (the schema error when schema parsing
  failed, that hashing error otherwise) without reaching the insert.
\<close>

theorem create_hashes_password:
  assumes "Password u \<noteq> ''''"
  shows "(\<forall>u'. User_BeforeCreate bc src u tx = Done (None, u') \<longrightarrow>
            Password u' = '''' \<and>
            GenerateFromPassword bc (Password u) DefaultCost = Inr (PasswordHash u') \<and>
            (bcrypt_verifies bc \<longrightarrow>
               CompareHashAndPassword bc (PasswordHash u') (Password u) = None)) \<and>
         (\<forall>err. GenerateFromPassword bc (Password u) DefaultCost = Inl err \<longrightarrow>
            User_BeforeCreate bc src u tx = Done (Some err, u) \<and>
            db_Create bc src schema insert_row tx u =
              Done (Some (case schema of Some e \<Rightarrow> e | None \<Rightarrow> err), u))"
proof (intro conjI allI impI)
  fix u'
  assume ok: "User_BeforeCreate bc src u tx = Done (None, u')"
  then obtain u1 bytes where
    h: "hashPassword bc u = (None, u1)" and
    u': "u' = u1\<lparr>VerificationCode := URLEncoding_EncodeToString bytes\<rparr>"
    unfolding User_BeforeCreate_Done by blast
  from h assms obtain hashedPassword where
    g: "GenerateFromPassword bc (Password u) DefaultCost = Inr hashedPassword" and
    u1: "u1 = u\<lparr>PasswordHash := hashedPassword, Password := ''''\<rparr>"
    by (auto simp: hashPassword_nonempty split: sum.splits)
  show "Password u' = ''''" by (simp add: u' u1)
  show gen: "GenerateFromPassword bc (Password u) DefaultCost = Inr (PasswordHash u')"
    by (simp add: u' u1 g)
  assume "bcrypt_verifies bc"
  with gen show "CompareHashAndPassword bc (PasswordHash u') (Password u) = None"
    unfolding bcrypt_verifies_def by blast
next
  fix err
  assume g: "GenerateFromPassword bc (Password u) DefaultCost = Inl err"
  with assms show hook: "User_BeforeCreate bc src u tx = Done (Some err, u)"
    by (simp add: User_BeforeCreate_def hashPassword_nonempty)
  then show "db_Create bc src schema insert_row tx u =
              Done (Some (case schema of Some e \<Rightarrow> e | None \<Rightarrow> err), u)"
    by (simp add: db_Create_def split: option.splits)
qed

theorem create_hashes_password_witness:
  "Password ((admin :: unit User)\<lparr>Password := ''hunter2''\<rparr>) \<noteq> '''' \<and>
   bcrypt_verifies sample_bcrypt \<and>
   User_BeforeCreate sample_bcrypt (Entropy ramp_stream)
       ((admin :: unit User)\<lparr>Password := ''hunter2''\<rparr>) no_tx =
     Done (None, (admin :: unit User)
       \<lparr>PasswordHash := ''$2a$10$2retnuh'',
        VerificationCode := URLEncoding_EncodeToString (map ramp_stream [0..<32])\<rparr>) \<and>
   CompareHashAndPassword sample_bcrypt ''$2a$10$2retnuh'' ''hunter2'' = None \<and>
   Password ((admin :: unit User)\<lparr>Password := replicate 73 CHR ''x''\<rparr>) \<noteq> '''' \<and>
   User_BeforeCreate sample_bcrypt (Entropy ramp_stream)
       ((admin :: unit User)\<lparr>Password := replicate 73 CHR ''x''\<rparr>) no_tx =
     Done (Some (Error ''bcrypt: password length exceeds 72 bytes''),
           (admin :: unit User)\<lparr>Password := replicate 73 CHR ''x''\<rparr>)"
proof -
  let ?u = "(admin :: unit User)\<lparr>Password := ''hunter2''\<rparr>"
  let ?u' = "(admin :: unit User)\<lparr>PasswordHash := ''$2a$10$2retnuh'',
        VerificationCode := URLEncoding_EncodeToString (map ramp_stream [0..<32])\<rparr>"
  let ?long = "(admin :: unit User)\<lparr>Password := replicate 73 CHR ''x''\<rparr>"
  have p: "Password ?u \<noteq> ''''" by simp
  have run: "User_BeforeCreate sample_bcrypt (Entropy ramp_stream) ?u no_tx = Done (None, ?u')"
    by (simp add: User_BeforeCreate_def hashPassword_def generateRandomString_32 rand_Read_def
        sample_bcrypt_def admin_def User.defs Base.defs)
  have pl: "Password ?long \<noteq> ''''" by simp
  have gl: "GenerateFromPassword sample_bcrypt (Password ?long) DefaultCost =
              Inl (Error ''bcrypt: password length exceeds 72 bytes'')"
    by (simp add: sample_bcrypt_def)
  from create_hashes_password [OF p, of sample_bcrypt "Entropy ramp_stream" no_tx] run
    sample_bcrypt_verifies
  have "CompareHashAndPassword sample_bcrypt (PasswordHash ?u') (Password ?u) = None"
    by blast
  moreover from create_hashes_password [OF pl, of sample_bcrypt "Entropy ramp_stream" no_tx] gl
  have "User_BeforeCreate sample_bcrypt (Entropy ramp_stream) ?long no_tx =
          Done (Some (Error ''bcrypt: password length exceeds 72 bytes''), ?long)"
    by blast
  ultimately show ?thesis
    using p run sample_bcrypt_verifies pl by simp
qed

text \<open>
  Claim C2, as the code has it. Whenever the creation hook returns nil, the
  \<open>VerificationCode\<close> is the \<open>base64.URLEncoding\<close> encoding of the 32 bytes the
  random source delivered. That encoding is padded: the code is 44 characters long,
  43 characters of the URL-safe alphabet followed by one \<open>=\<close>.
\<close>

theorem verification_code_44_chars:
  assumes "User_BeforeCreate bc src u tx = Done (None, u')"
  shows "\<exists>bytes body.
           rand_Read src (replicate 32 0) = (bytes, None) \<and> length bytes = 32 \<and>
           VerificationCode u' = URLEncoding_EncodeToString bytes \<and>
           length (VerificationCode u') = 44 \<and>
           VerificationCode u' = body @ [StdPadding] \<and>
           length body = 43 \<and> set body \<subseteq> set encodeURL"
proof -
  from assms obtain u1 bytes where
    r: "rand_Read src (replicate 32 0) = (bytes, None)" and
    u': "u' = u1\<lparr>VerificationCode := URLEncoding_EncodeToString bytes\<rparr>"
    unfolding User_BeforeCreate_Done by blast
  from r have len: "length bytes = 32"
    by (auto dest: rand_Read_length)
  have v: "VerificationCode u' = URLEncoding_EncodeToString bytes"
    by (simp add: u')
  from EncodeToString_32 [OF len] r len v show ?thesis by auto
qed

theorem verification_code_44_chars_witness:
  "User_BeforeCreate sample_bcrypt (Entropy ramp_stream) (admin :: unit User) no_tx =
     Done (None, (admin :: unit User)
       \<lparr>VerificationCode := ''-gEIDxYdJCsyOUBHTlVcY2pxeH-GjZSboqmwt77FzNM=''\<rparr>) \<and>
   (\<exists>body. ''-gEIDxYdJCsyOUBHTlVcY2pxeH-GjZSboqmwt77FzNM='' = body @ [StdPadding] \<and>
           length body = 43 \<and> set body \<subseteq> set encodeURL)"
proof -
  let ?u' = "(admin :: unit User)
       \<lparr>VerificationCode := ''-gEIDxYdJCsyOUBHTlVcY2pxeH-GjZSboqmwt77FzNM=''\<rparr>"
  have code: "URLEncoding_EncodeToString (map ramp_stream [0..<32]) =
     ''-gEIDxYdJCsyOUBHTlVcY2pxeH-GjZSboqmwt77FzNM=''"
    by (simp add: upt_rec ramp_stream_def encode_at_def encodeURL_def StdPadding_def)
  have "Password (admin :: unit User) = ''''"
    by (simp add: admin_def User.defs Base.defs)
  then have run: "User_BeforeCreate sample_bcrypt (Entropy ramp_stream) (admin :: unit User) no_tx =
     Done (None, ?u')"
    by (simp add: User_BeforeCreate_def hashPassword_empty generateRandomString_32 rand_Read_def
        code)
  from verification_code_44_chars [OF run] have
    "\<exists>body. VerificationCode ?u' = body @ [StdPadding] \<and>
            length body = 43 \<and> set body \<subseteq> set encodeURL"
    by blast
  with run show ?thesis by simp
qed

text \<open>
  Claim C2, as stated, asks for a 43-character string. With a random source that
  delivers 32 zero bytes the hook succeeds on the default admin record and the code it
  stores has 44 characters.
\<close>

theorem verification_code_not_43_chars:
  "User_BeforeCreate sample_bcrypt (Entropy zero_stream) (admin :: unit User) no_tx =
     Done (None, (admin :: unit User)
       \<lparr>VerificationCode := ''AAAAAAAAAAAAAAAAAAAAAAAAAAAAAAAAAAAAAAAAAAA=''\<rparr>) \<and>
   length ''AAAAAAAAAAAAAAAAAAAAAAAAAAAAAAAAAAAAAAAAAAA='' = 44 \<and>
   length (VerificationCode ((admin :: unit User)
       \<lparr>VerificationCode := ''AAAAAAAAAAAAAAAAAAAAAAAAAAAAAAAAAAAAAAAAAAA=''\<rparr>)) \<noteq> 43"
proof -
  have "Password (admin :: unit User) = ''''"
    by (simp add: admin_def User.defs Base.defs)
  then have "User_BeforeCreate sample_bcrypt (Entropy zero_stream) (admin :: unit User) no_tx =
     Done (None, (admin :: unit User)
       \<lparr>VerificationCode := URLEncoding_EncodeToString (map zero_stream [0..<32])\<rparr>)"
    by (simp add: User_BeforeCreate_def hashPassword_empty generateRandomString_32 rand_Read_def)
  then show ?thesis by (simp add: zero_code)
qed

text \<open>
  Claim C3. When the \<open>Password\<close> field is not marked as changed in the statement, the
  update hook returns nil and leaves the whole record, and so its \<open>PasswordHash\<close>,
  exactly as it was.
\<close>

theorem update_keeps_hash:
  assumes "\<not> Statement_Changed tx ''Password''"
  shows "User_BeforeUpdate bc u tx = (None, u) \<and>
         PasswordHash (snd (User_BeforeUpdate bc u tx)) = PasswordHash u"
  using assms by (simp add: User_BeforeUpdate_def)

theorem update_keeps_hash_witness:
  "\<not> Statement_Changed no_tx ''Password'' \<and>
   User_BeforeUpdate sample_bcrypt ((admin :: unit User)\<lparr>Password := ''typed but unchanged''\<rparr>) no_tx =
     (None, (admin :: unit User)\<lparr>Password := ''typed but unchanged''\<rparr>) \<and>
   PasswordHash (snd (User_BeforeUpdate sample_bcrypt
       ((admin :: unit User)\<lparr>Password := ''typed but unchanged''\<rparr>) no_tx)) = ''password''"
proof -
  have c: "\<not> Statement_Changed no_tx ''Password''"
    by (simp add: no_tx_def)
  have h: "PasswordHash ((admin :: unit User)\<lparr>Password := ''typed but unchanged''\<rparr>) = ''password''"
    by (simp add: admin_def User.defs Base.defs)
  from update_keeps_hash [OF c, of sample_bcrypt
      "(admin :: unit User)\<lparr>Password := ''typed but unchanged''\<rparr>"] c h
  show ?thesis by simp
qed



section \<open>Random-string generation\<close>

text \<open>
  Claim C7. If reading the random source returns an error, \<open>generateRandomString\<close>
  panics with that error and returns no string. For the two callers, which ask for 32
  bytes: the APIKey creation hook panics, and so does the User creation hook once its
  hashing step has returned nil.
\<close>

theorem random_failure_panics:
  assumes "snd (rand_Read src (replicate (nat len) 0)) = Some err" and "0 \<le> len"
  shows "generateRandomString src len = Panic err \<and>
         (\<forall>s. generateRandomString src len \<noteq> Done s) \<and>
         (len = 32 \<longrightarrow>
            APIKey_BeforeCreate src k tx = Panic err \<and>
            (fst (hashPassword bc u) = None \<longrightarrow> User_BeforeCreate bc src u tx = Panic err))"
proof -
  from assms have g: "generateRandomString src len = Panic err"
    by (auto simp: generateRandomString_def make_bytes_def split: prod.splits option.splits)
  then have "\<forall>s. generateRandomString src len \<noteq> Done s"
    by simp
  moreover from g have "len = 32 \<longrightarrow> APIKey_BeforeCreate src k tx = Panic err"
    by (auto simp: APIKey_BeforeCreate_def)
  moreover from g have
    "len = 32 \<longrightarrow> fst (hashPassword bc u) = None \<longrightarrow> User_BeforeCreate bc src u tx = Panic err"
    by (auto simp: User_BeforeCreate_def split: prod.splits)
  ultimately show ?thesis using g by blast
qed

theorem random_failure_panics_witness:
  "snd (rand_Read (Failing (Error ''EAGAIN'')) (replicate (nat 32) 0)) = Some (Error ''EAGAIN'') \<and>
   (0::int) \<le> 32 \<and>
   generateRandomString (Failing (Error ''EAGAIN'')) 32 = Panic (Error ''EAGAIN'') \<and>
   APIKey_BeforeCreate (Failing (Error ''EAGAIN'')) sample_APIKey no_tx = Panic (Error ''EAGAIN'') \<and>
   fst (hashPassword sample_bcrypt (admin :: unit User)) = None \<and>
   User_BeforeCreate sample_bcrypt (Failing (Error ''EAGAIN'')) (admin :: unit User) no_tx =
     Panic (Error ''EAGAIN'')"
proof -
  have r: "snd (rand_Read (Failing (Error ''EAGAIN'')) (replicate (nat 32) 0)) =
             Some (Error ''EAGAIN'')"
    by (simp add: rand_Read_def)
  have n: "(0::int) \<le> 32" by simp
  have h: "fst (hashPassword sample_bcrypt (admin :: unit User)) = None"
    by (simp add: hashPassword_def admin_def User.defs Base.defs)
  from random_failure_panics [OF r n, of sample_APIKey no_tx sample_bcrypt "admin :: unit User"]
    r n h
  show ?thesis by blast
qed

section \<open>API key issuance\<close>

text \<open>
  Claim C8. The APIKey creation hook never returns an error. Whenever it returns, the
  result is the caller's record with only \<open>Key\<close> replaced, by the
  \<open>base64.URLEncoding\<close> encoding of the 32 bytes just read from the random source;
  \<open>ExpiresAt\<close> and \<open>LastUsedAt\<close> in particular are the caller's. With a delivering
  random source the hook does return.
\<close>

theorem apikey_create_sets_key_only:
  "(\<forall>err k'. APIKey_BeforeCreate src k tx \<noteq> Done (Some err, k')) \<and>
   (\<forall>k'. APIKey_BeforeCreate src k tx = Done (None, k') \<longrightarrow>
      (\<exists>bytes. rand_Read src (replicate 32 0) = (bytes, None) \<and> length bytes = 32 \<and>
         k' = k\<lparr>Key := URLEncoding_EncodeToString bytes\<rparr>) \<and>
      ExpiresAt k' = ExpiresAt k \<and> LastUsedAt k' = LastUsedAt k) \<and>
   (\<forall>f. src = Entropy f \<longrightarrow>
      APIKey_BeforeCreate src k tx =
        Done (None, k\<lparr>Key := URLEncoding_EncodeToString (map f [0..<32])\<rparr>))"
proof (intro conjI allI impI)
  fix err k'
  show "APIKey_BeforeCreate src k tx \<noteq> Done (Some err, k')"
    by (simp add: APIKey_BeforeCreate_def split: go.splits)
next
  fix k'
  assume ok: "APIKey_BeforeCreate src k tx = Done (None, k')"
  then obtain key where g: "generateRandomString src 32 = Done key" and k': "k' = k\<lparr>Key := key\<rparr>"
    by (auto simp: APIKey_BeforeCreate_def split: go.splits)
  from g obtain bytes where
    r: "rand_Read src (replicate 32 0) = (bytes, None)" and key: "key = URLEncoding_EncodeToString bytes"
    unfolding generateRandomString_Done by blast
  from r have "length bytes = 32" by (auto dest: rand_Read_length)
  with r k' key
  show "\<exists>bytes. rand_Read src (replicate 32 0) = (bytes, None) \<and> length bytes = 32 \<and>
         k' = k\<lparr>Key := URLEncoding_EncodeToString bytes\<rparr>"
    by blast
  show "ExpiresAt k' = ExpiresAt k" by (simp add: k')
  show "LastUsedAt k' = LastUsedAt k" by (simp add: k')
next
  fix f
  assume "src = Entropy f"
  then show "APIKey_BeforeCreate src k tx =
        Done (None, k\<lparr>Key := URLEncoding_EncodeToString (map f [0..<32])\<rparr>)"
    by (simp add: APIKey_BeforeCreate_def generateRandomString_32 rand_Read_def)
qed

theorem apikey_create_sets_key_only_witness:
  "APIKey_BeforeCreate (Entropy ramp_stream) sample_APIKey no_tx =
     Done (None, sample_APIKey\<lparr>Key := ''-gEIDxYdJCsyOUBHTlVcY2pxeH-GjZSboqmwt77FzNM=''\<rparr>) \<and>
   ExpiresAt (sample_APIKey\<lparr>Key := ''-gEIDxYdJCsyOUBHTlVcY2pxeH-GjZSboqmwt77FzNM=''\<rparr>) = \<lparr>sec = 99, nsec = 0\<rparr> \<and>
   LastUsedAt (sample_APIKey\<lparr>Key := ''-gEIDxYdJCsyOUBHTlVcY2pxeH-GjZSboqmwt77FzNM=''\<rparr>) = \<lparr>sec = 5, nsec = 1\<rparr>"
proof -
  have code: "URLEncoding_EncodeToString (map ramp_stream [0..<32]) =
     ''-gEIDxYdJCsyOUBHTlVcY2pxeH-GjZSboqmwt77FzNM=''"
    by (simp add: upt_rec ramp_stream_def encode_at_def encodeURL_def StdPadding_def)
  from apikey_create_sets_key_only [of "Entropy ramp_stream" sample_APIKey no_tx]
  have "APIKey_BeforeCreate (Entropy ramp_stream) sample_APIKey no_tx =
          Done (None, sample_APIKey\<lparr>Key := URLEncoding_EncodeToString (map ramp_stream [0..<32])\<rparr>)"
    by blast
  then show ?thesis
    by (simp add: code sample_APIKey_def APIKey.defs Base.defs)
qed

section \<open>Subscription lifecycle\<close>

text \<open>
  Claim C6. The Subscription creation hook returns nil, and its result is the caller's
  record with \<open>Status\<close> set to \<open>trialing\<close> if it was the empty string and kept
  otherwise, \<open>StartDate\<close> set to the current time if it was the zero time and kept
  otherwise, and every other field as it was.
\<close>

theorem subscription_defaults:
  "Subscription_BeforeCreate now s tx =
     (None, s\<lparr>Status := (if Status s = '''' then ''trialing'' else Status s),
              StartDate := (if IsZero (StartDate s) then now else StartDate s)\<rparr>)"
  by (simp add: Subscription_BeforeCreate_def SubscriptionStatusTrialing_def Let_def)

theorem subscription_defaults_witness:
  "Subscription_BeforeCreate \<lparr>sec = 63900000000, nsec = 5\<rparr> sample_Subscription no_tx =
     (None, sample_Subscription\<lparr>Status := ''trialing'', StartDate := \<lparr>sec = 63900000000, nsec = 5\<rparr>\<rparr>) \<and>
   Subscription_BeforeCreate \<lparr>sec = 63900000000, nsec = 5\<rparr>
       (sample_Subscription\<lparr>Status := ''active'', StartDate := \<lparr>sec = 1, nsec = 0\<rparr>\<rparr>) no_tx =
     (None, sample_Subscription\<lparr>Status := ''active'', StartDate := \<lparr>sec = 1, nsec = 0\<rparr>\<rparr>)"
  using subscription_defaults [of "\<lparr>sec = 63900000000, nsec = 5\<rparr>" sample_Subscription no_tx]
    subscription_defaults [of "\<lparr>sec = 63900000000, nsec = 5\<rparr>"
      "sample_Subscription\<lparr>Status := ''active'', StartDate := \<lparr>sec = 1, nsec = 0\<rparr>\<rparr>" no_tx]
  by (simp add: sample_Subscription_def IsZero_def zero_Time_def Subscription.defs Base.defs)

section \<open>Authorization gate\<close>

lemma VerifyToken_valid:
  assumes "parse (ExtractToken c) keyFunc = Inr token"
    and "Valid token" and "Claims token = MapClaims claims"
    and "claims ''role'' = Some (JString role)"
  shows "VerifyToken parse c = Inr role"
  using assms by (simp add: VerifyToken_def)

lemma VerifyToken_parse_error:
  "parse (ExtractToken c) keyFunc = Inl err \<Longrightarrow> VerifyToken parse c = Inl err"
  by (simp add: VerifyToken_def)

lemma VerifyToken_invalid_token:
  assumes "parse (ExtractToken c) keyFunc = Inr token"
    and "\<not> Valid token \<or> Claims token = OtherClaims"
  shows "VerifyToken parse c = Inl (Error ''invalid token'')"
  using assms by (auto simp: VerifyToken_def split: jwt_Claims.splits)

lemma VerifyToken_invalid_role:
  assumes "parse (ExtractToken c) keyFunc = Inr token"
    and "Valid token" and "Claims token = MapClaims claims"
    and "\<forall>role. claims ''role'' \<noteq> Some (JString role)"
  shows "VerifyToken parse c = Inl (Error ''invalid role'')"
  using assms by (auto simp: VerifyToken_def split: option.splits json.splits)

text \<open>Verification yields a role only from a valid token with a string role claim.\<close>

lemma VerifyToken_Inr_iff:
  "VerifyToken parse c = Inr role \<longleftrightarrow>
     (\<exists>token claims. parse (ExtractToken c) keyFunc = Inr token \<and> Valid token \<and>
        Claims token = MapClaims claims \<and> claims ''role'' = Some (JString role))"
proof
  assume v: "VerifyToken parse c = Inr role"
  then obtain token where p: "parse (ExtractToken c) keyFunc = Inr token"
    by (cases "parse (ExtractToken c) keyFunc") (auto simp: VerifyToken_def)
  from v p obtain claims where m: "Claims token = MapClaims claims" and val: "Valid token"
    by (cases "Claims token") (auto simp: VerifyToken_def split: if_splits)
  from v p m val have "claims ''role'' = Some (JString role)"
    by (auto simp: VerifyToken_def split: option.splits json.splits)
  with p m val show "\<exists>token claims. parse (ExtractToken c) keyFunc = Inr token \<and> Valid token \<and>
        Claims token = MapClaims claims \<and> claims ''role'' = Some (JString role)"
    by blast
next
  assume "\<exists>token claims. parse (ExtractToken c) keyFunc = Inr token \<and> Valid token \<and>
        Claims token = MapClaims claims \<and> claims ''role'' = Some (JString role)"
  then show "VerifyToken parse c = Inr role"
    by (auto intro: VerifyToken_valid)
qed

lemma gates_reject:
  assumes "VerifyToken parse c = Inl err"
  shows "AuthMiddleware parse requiredRole rest c = unauthorized c \<and>
         IsUserOrAdmin parse rest c = unauthorized c"
  using assms by (simp add: AuthMiddleware_def IsUserOrAdmin_def)

lemma keyFunc_HMAC_iff:
  "keyFunc t = Inr key \<longleftrightarrow> key = jwtKey \<and> (\<exists>alg. Method t = SigningMethodHMAC alg)"
  by (cases "Method t") (auto simp: keyFunc_def)

lemma keyFunc_other:
  "Method t = SigningMethodOther alg \<Longrightarrow> keyFunc t = Inl (Error ''invalid signing method'')"
  by (simp add: keyFunc_def)

lemma ExtractToken_bearer:
  assumes "GetHeader c ''Authorization'' = scheme @ CHR '' '' # token"
    and "CHR '' '' \<notin> set scheme" and "CHR '' '' \<notin> set token"
  shows "ExtractToken c = token"
  using assms by (simp add: ExtractToken_def strings_Split_at_sep strings_Split_no_sep)

lemma ExtractToken_request_bearer:
  "CHR '' '' \<notin> set token \<Longrightarrow> ExtractToken (request (''Bearer '' @ token)) = token"
  by (rule ExtractToken_bearer [where scheme = "''Bearer''"])
    (simp_all add: GetHeader_def request_def)

lemma sample_Parse_admin:
  "VerifyToken sample_Parse (request ''Bearer a.admin.token'') = Inr ''admin''"
  using ExtractToken_request_bearer [of "''a.admin.token''"]
  by (simp add: VerifyToken_def sample_Parse_def sample_tokens_def sample_token_def keyFunc_def)

lemma sample_Parse_user:
  "VerifyToken sample_Parse (request ''Bearer a.user.token'') = Inr ''user''"
  using ExtractToken_request_bearer [of "''a.user.token''"]
  by (simp add: VerifyToken_def sample_Parse_def sample_tokens_def sample_token_def keyFunc_def)

lemma sample_Parse_guest:
  "VerifyToken sample_Parse (request ''Bearer a.guest.token'') = Inr ''guest''"
  using ExtractToken_request_bearer [of "''a.guest.token''"]
  by (simp add: VerifyToken_def sample_Parse_def sample_tokens_def sample_token_def keyFunc_def)

lemma sample_Parse_notvalid:
  "VerifyToken sample_Parse (request ''Bearer a.notvalid.token'') = Inl (Error ''invalid token'')"
  using ExtractToken_request_bearer [of "''a.notvalid.token''"]
  by (simp add: VerifyToken_def sample_Parse_def sample_tokens_def sample_token_def keyFunc_def)

lemma sample_Parse_registered:
  "VerifyToken sample_Parse (request ''Bearer a.registered.token'') =
     Inl (Error ''invalid token'')"
  using ExtractToken_request_bearer [of "''a.registered.token''"]
  by (simp add: VerifyToken_def sample_Parse_def sample_tokens_def sample_token_def keyFunc_def)

lemma sample_Parse_norole:
  "VerifyToken sample_Parse (request ''Bearer a.norole.token'') = Inl (Error ''invalid role'')"
  using ExtractToken_request_bearer [of "''a.norole.token''"]
  by (simp add: VerifyToken_def sample_Parse_def sample_tokens_def sample_token_def keyFunc_def)

lemma sample_Parse_numrole:
  "VerifyToken sample_Parse (request ''Bearer a.numrole.token'') = Inl (Error ''invalid role'')"
  using ExtractToken_request_bearer [of "''a.numrole.token''"]
  by (simp add: VerifyToken_def sample_Parse_def sample_tokens_def sample_token_def keyFunc_def)

lemma sample_Parse_rsa:
  "VerifyToken sample_Parse (request ''Bearer a.rsa.token'') =
     Inl (Error ''invalid signing method'')"
  using ExtractToken_request_bearer [of "''a.rsa.token''"]
  by (simp add: VerifyToken_def sample_Parse_def sample_tokens_def sample_token_def keyFunc_def)

lemma sample_Parse_none:
  "VerifyToken sample_Parse (request ''a.admin.token'') =
     Inl (Error ''token contains an invalid number of segments'')"
  by (simp add: VerifyToken_def ExtractToken_def GetHeader_def request_def sample_Parse_def
      sample_tokens_def)

text \<open>
  Claim C4. The role-exact gate runs the rest of the chain exactly when token
  verification succeeds with the required role, and the user-or-admin gate exactly when
  it succeeds with role \<open>user\<close> or \<open>admin\<close>; in every other case the result is the
  context with a 401 \<open>Unauthorized\<close> body rendered and the abort flag set, and the rest
  of the chain has no part in it. Verification succeeds with a role exactly when the
  parser returns a token that is valid, has map claims and a string \<open>role\<close> claim of
  that value. So both gates reject, for every required role, when the parser returns an
  error (a missing, malformed, expired or wrongly signed token, or a key callback that
  refused), when the token is not valid or its claims are not map claims, and when the
  role claim is missing or not a string. The key callback hands out the key for HMAC
  methods only and refuses every other method. In particular, when the parser returns a
  valid token whose claims carry role \<open>admin\<close> the admin-only gate passes, and when
  they carry role \<open>user\<close> the admin-only gate rejects and the user-or-admin gate
  passes.
\<close>

theorem gates_pass_iff_role:
  "AuthMiddleware parse requiredRole rest c =
     (if VerifyToken parse c = Inr requiredRole then rest c else unauthorized c) \<and>
   IsUserOrAdmin parse rest c =
     (if VerifyToken parse c = Inr ''user'' \<or> VerifyToken parse c = Inr ''admin''
      then rest c else unauthorized c) \<and>
   unauthorized c =
     c\<lparr>rendered := rendered c @ [(401, [(''error'', JString ''Unauthorized'')])],
       aborted := True\<rparr> \<and>
   (VerifyToken parse c = Inr role \<longleftrightarrow>
      (\<exists>token claims. parse (ExtractToken c) keyFunc = Inr token \<and> Valid token \<and>
         Claims token = MapClaims claims \<and> claims ''role'' = Some (JString role))) \<and>
   (\<forall>err. parse (ExtractToken c) keyFunc = Inl err \<longrightarrow>
      VerifyToken parse c = Inl err \<and>
      AuthMiddleware parse requiredRole rest c = unauthorized c \<and>
      IsUserOrAdmin parse rest c = unauthorized c) \<and>
   (\<forall>token. parse (ExtractToken c) keyFunc = Inr token \<and>
        (\<not> Valid token \<or> Claims token = OtherClaims) \<longrightarrow>
      VerifyToken parse c = Inl (Error ''invalid token'') \<and>
      AuthMiddleware parse requiredRole rest c = unauthorized c \<and>
      IsUserOrAdmin parse rest c = unauthorized c) \<and>
   (\<forall>token claims. parse (ExtractToken c) keyFunc = Inr token \<and> Valid token \<and>
        Claims token = MapClaims claims \<and>
        (\<forall>r. claims ''role'' \<noteq> Some (JString r)) \<longrightarrow>
      VerifyToken parse c = Inl (Error ''invalid role'') \<and>
      AuthMiddleware parse requiredRole rest c = unauthorized c \<and>
      IsUserOrAdmin parse rest c = unauthorized c) \<and>
   (keyFunc t = Inr key \<longleftrightarrow> key = jwtKey \<and> (\<exists>alg. Method t = SigningMethodHMAC alg)) \<and>
   (\<forall>alg. Method t = SigningMethodOther alg \<longrightarrow>
      keyFunc t = Inl (Error ''invalid signing method'')) \<and>
   (\<forall>token claims r.
      parse (ExtractToken c) keyFunc = Inr token \<and> Valid token \<and>
      Claims token = MapClaims claims \<and> claims ''role'' = Some (JString r) \<longrightarrow>
      (r = ''admin'' \<longrightarrow> AuthMiddleware parse ''admin'' rest c = rest c) \<and>
      (r = ''user'' \<longrightarrow>
         AuthMiddleware parse ''admin'' rest c = unauthorized c \<and>
         IsUserOrAdmin parse rest c = rest c))"
proof (intro conjI)
  show "AuthMiddleware parse requiredRole rest c =
     (if VerifyToken parse c = Inr requiredRole then rest c else unauthorized c)"
    by (cases "VerifyToken parse c") (auto simp: AuthMiddleware_def)
  show "IsUserOrAdmin parse rest c =
     (if VerifyToken parse c = Inr ''user'' \<or> VerifyToken parse c = Inr ''admin''
      then rest c else unauthorized c)"
    by (cases "VerifyToken parse c") (auto simp: IsUserOrAdmin_def UserRole_def AdminRole_def)
  show "unauthorized c =
     c\<lparr>rendered := rendered c @ [(401, [(''error'', JString ''Unauthorized'')])],
       aborted := True\<rparr>"
    by (simp add: unauthorized_def gin_Abort_def gin_JSON_def StatusUnauthorized_def)
  show "VerifyToken parse c = Inr role \<longleftrightarrow>
      (\<exists>token claims. parse (ExtractToken c) keyFunc = Inr token \<and> Valid token \<and>
         Claims token = MapClaims claims \<and> claims ''role'' = Some (JString role))"
    by (rule VerifyToken_Inr_iff)
  show "\<forall>err. parse (ExtractToken c) keyFunc = Inl err \<longrightarrow>
      VerifyToken parse c = Inl err \<and>
      AuthMiddleware parse requiredRole rest c = unauthorized c \<and>
      IsUserOrAdmin parse rest c = unauthorized c"
    using VerifyToken_parse_error gates_reject by blast
  show "\<forall>token. parse (ExtractToken c) keyFunc = Inr token \<and>
        (\<not> Valid token \<or> Claims token = OtherClaims) \<longrightarrow>
      VerifyToken parse c = Inl (Error ''invalid token'') \<and>
      AuthMiddleware parse requiredRole rest c = unauthorized c \<and>
      IsUserOrAdmin parse rest c = unauthorized c"
  proof (intro allI impI)
    fix token
    assume "parse (ExtractToken c) keyFunc = Inr token \<and>
        (\<not> Valid token \<or> Claims token = OtherClaims)"
    then have v: "VerifyToken parse c = Inl (Error ''invalid token'')"
      by (blast intro: VerifyToken_invalid_token)
    with gates_reject [OF v] show "VerifyToken parse c = Inl (Error ''invalid token'') \<and>
      AuthMiddleware parse requiredRole rest c = unauthorized c \<and>
      IsUserOrAdmin parse rest c = unauthorized c"
      by blast
  qed
  show "\<forall>token claims. parse (ExtractToken c) keyFunc = Inr token \<and> Valid token \<and>
        Claims token = MapClaims claims \<and>
        (\<forall>r. claims ''role'' \<noteq> Some (JString r)) \<longrightarrow>
      VerifyToken parse c = Inl (Error ''invalid role'') \<and>
      AuthMiddleware parse requiredRole rest c = unauthorized c \<and>
      IsUserOrAdmin parse rest c = unauthorized c"
  proof (intro allI impI)
    fix token claims
    assume "parse (ExtractToken c) keyFunc = Inr token \<and> Valid token \<and>
        Claims token = MapClaims claims \<and>
        (\<forall>r. claims ''role'' \<noteq> Some (JString r))"
    then have v: "VerifyToken parse c = Inl (Error ''invalid role'')"
      by (blast intro: VerifyToken_invalid_role)
    with gates_reject [OF v] show "VerifyToken parse c = Inl (Error ''invalid role'') \<and>
      AuthMiddleware parse requiredRole rest c = unauthorized c \<and>
      IsUserOrAdmin parse rest c = unauthorized c"
      by blast
  qed
  show "keyFunc t = Inr key \<longleftrightarrow> key = jwtKey \<and> (\<exists>alg. Method t = SigningMethodHMAC alg)"
    by (rule keyFunc_HMAC_iff)
  show "\<forall>alg. Method t = SigningMethodOther alg \<longrightarrow>
      keyFunc t = Inl (Error ''invalid signing method'')"
    by (simp add: keyFunc_other)
  show "\<forall>token claims r.
      parse (ExtractToken c) keyFunc = Inr token \<and> Valid token \<and>
      Claims token = MapClaims claims \<and> claims ''role'' = Some (JString r) \<longrightarrow>
      (r = ''admin'' \<longrightarrow> AuthMiddleware parse ''admin'' rest c = rest c) \<and>
      (r = ''user'' \<longrightarrow>
         AuthMiddleware parse ''admin'' rest c = unauthorized c \<and>
         IsUserOrAdmin parse rest c = rest c)"
  proof (intro allI impI)
    fix token claims r
    assume "parse (ExtractToken c) keyFunc = Inr token \<and> Valid token \<and>
      Claims token = MapClaims claims \<and> claims ''role'' = Some (JString r)"
    then have v: "VerifyToken parse c = Inr r"
      by (auto intro: VerifyToken_valid)
    then show "(r = ''admin'' \<longrightarrow> AuthMiddleware parse ''admin'' rest c = rest c) \<and>
      (r = ''user'' \<longrightarrow>
         AuthMiddleware parse ''admin'' rest c = unauthorized c \<and>
         IsUserOrAdmin parse rest c = rest c)"
      by (simp add: AuthMiddleware_def IsUserOrAdmin_def UserRole_def)
  qed
qed

theorem gates_pass_iff_role_witness:
  "AuthMiddleware sample_Parse ''admin'' guarded (request ''Bearer a.admin.token'') =
     guarded (request ''Bearer a.admin.token'') \<and>
   AuthMiddleware sample_Parse ''admin'' guarded (request ''Bearer a.user.token'') =
     (request ''Bearer a.user.token'')
       \<lparr>rendered := [(401, [(''error'', JString ''Unauthorized'')])], aborted := True\<rparr> \<and>
   IsUserOrAdmin sample_Parse guarded (request ''Bearer a.user.token'') =
     guarded (request ''Bearer a.user.token'') \<and>
   IsUserOrAdmin sample_Parse guarded (request ''Bearer a.guest.token'') =
     (request ''Bearer a.guest.token'')
       \<lparr>rendered := [(401, [(''error'', JString ''Unauthorized'')])], aborted := True\<rparr> \<and>
   IsUserOrAdmin sample_Parse guarded (request ''a.admin.token'') =
     (request ''a.admin.token'')
       \<lparr>rendered := [(401, [(''error'', JString ''Unauthorized'')])], aborted := True\<rparr> \<and>
   VerifyToken sample_Parse (request ''Bearer a.notvalid.token'') =
     Inl (Error ''invalid token'') \<and>
   AuthMiddleware sample_Parse ''admin'' guarded (request ''Bearer a.notvalid.token'') =
     (request ''Bearer a.notvalid.token'')
       \<lparr>rendered := [(401, [(''error'', JString ''Unauthorized'')])], aborted := True\<rparr> \<and>
   VerifyToken sample_Parse (request ''Bearer a.registered.token'') =
     Inl (Error ''invalid token'') \<and>
   IsUserOrAdmin sample_Parse guarded (request ''Bearer a.registered.token'') =
     (request ''Bearer a.registered.token'')
       \<lparr>rendered := [(401, [(''error'', JString ''Unauthorized'')])], aborted := True\<rparr> \<and>
   VerifyToken sample_Parse (request ''Bearer a.norole.token'') =
     Inl (Error ''invalid role'') \<and>
   AuthMiddleware sample_Parse '''' guarded (request ''Bearer a.norole.token'') =
     (request ''Bearer a.norole.token'')
       \<lparr>rendered := [(401, [(''error'', JString ''Unauthorized'')])], aborted := True\<rparr> \<and>
   VerifyToken sample_Parse (request ''Bearer a.numrole.token'') =
     Inl (Error ''invalid role'') \<and>
   IsUserOrAdmin sample_Parse guarded (request ''Bearer a.numrole.token'') =
     (request ''Bearer a.numrole.token'')
       \<lparr>rendered := [(401, [(''error'', JString ''Unauthorized'')])], aborted := True\<rparr> \<and>
   VerifyToken sample_Parse (request ''Bearer a.rsa.token'') =
     Inl (Error ''invalid signing method'') \<and>
   AuthMiddleware sample_Parse ''admin'' guarded (request ''Bearer a.rsa.token'') =
     (request ''Bearer a.rsa.token'')
       \<lparr>rendered := [(401, [(''error'', JString ''Unauthorized'')])], aborted := True\<rparr> \<and>
   guarded (request ''Bearer a.user.token'') \<noteq>
     (request ''Bearer a.user.token'')
       \<lparr>rendered := [(401, [(''error'', JString ''Unauthorized'')])], aborted := True\<rparr>"
proof -
  note role_gate = gates_pass_iff_role [THEN conjunct1, of sample_Parse _ guarded]
  note either_gate = gates_pass_iff_role [THEN conjunct2, THEN conjunct1, of sample_Parse guarded]
  note reject = gates_pass_iff_role [THEN conjunct2, THEN conjunct2, THEN conjunct1]
  have shape: "unauthorized (request a) =
      (request a)\<lparr>rendered := [(401, [(''error'', JString ''Unauthorized'')])], aborted := True\<rparr>"
    for a
    using reject [of "request a"] by (simp add: request_def)
  have differ: "guarded (request ''Bearer a.user.token'') \<noteq>
     (request ''Bearer a.user.token'')
       \<lparr>rendered := [(401, [(''error'', JString ''Unauthorized'')])], aborted := True\<rparr>"
    by (simp add: request_def guarded_def gin_JSON_def)
  show ?thesis
    using role_gate [of "''admin''" "request ''Bearer a.admin.token''"]
      role_gate [of "''admin''" "request ''Bearer a.user.token''"]
      role_gate [of "''admin''" "request ''Bearer a.notvalid.token''"]
      role_gate [of "''''" "request ''Bearer a.norole.token''"]
      role_gate [of "''admin''" "request ''Bearer a.rsa.token''"]
      either_gate [of "request ''Bearer a.user.token''"]
      either_gate [of "request ''Bearer a.guest.token''"]
      either_gate [of "request ''a.admin.token''"]
      either_gate [of "request ''Bearer a.registered.token''"]
      either_gate [of "request ''Bearer a.numrole.token''"]
      differ
    by (simp add: sample_Parse_admin sample_Parse_user sample_Parse_guest sample_Parse_notvalid
        sample_Parse_registered sample_Parse_norole sample_Parse_numrole sample_Parse_rsa
        sample_Parse_none shape)
qed

text \<open>
  Claim C5. Splitting the Authorization header on spaces never yields zero segments and
  yields one segment more than the header has spaces. Token extraction returns the
  second segment when there are exactly two and the empty string for every other count;
  for a header of the form scheme, one space, token, with no further space, that is the
  token.
  When the token parser rejects the empty string, verification of a request whose
  extracted token is empty fails with the parser's error.
\<close>

theorem extract_token_two_segments:
  "strings_Split (GetHeader c ''Authorization'') CHR '' '' \<noteq> [] \<and>
   length (strings_Split (GetHeader c ''Authorization'') CHR '' '') =
     Suc (count_list (GetHeader c ''Authorization'') CHR '' '') \<and>
   (length (strings_Split (GetHeader c ''Authorization'') CHR '' '') = 2 \<longrightarrow>
      ExtractToken c = strings_Split (GetHeader c ''Authorization'') CHR '' '' ! 1) \<and>
   (length (strings_Split (GetHeader c ''Authorization'') CHR '' '') \<noteq> 2 \<longrightarrow>
      ExtractToken c = '''') \<and>
   (\<forall>scheme token.
      GetHeader c ''Authorization'' = scheme @ CHR '' '' # token \<and>
      CHR '' '' \<notin> set scheme \<and> CHR '' '' \<notin> set token \<longrightarrow>
      ExtractToken c = token) \<and>
   (\<forall>err. parse '''' keyFunc = Inl err \<and> ExtractToken c = '''' \<longrightarrow>
      VerifyToken parse c = Inl err)"
proof -
  let ?segments = "strings_Split (GetHeader c ''Authorization'') CHR '' ''"
  have "length ?segments = 2 \<longrightarrow> ExtractToken c = ?segments ! 1"
    by (simp add: ExtractToken_def)
  moreover have "length ?segments \<noteq> 2 \<longrightarrow> ExtractToken c = ''''"
    by (simp add: ExtractToken_def)
  moreover have "\<forall>scheme token.
      GetHeader c ''Authorization'' = scheme @ CHR '' '' # token \<and>
      CHR '' '' \<notin> set scheme \<and> CHR '' '' \<notin> set token \<longrightarrow>
      ExtractToken c = token"
    by (blast intro: ExtractToken_bearer)
  moreover have "\<forall>err. parse '''' keyFunc = Inl err \<and> ExtractToken c = '''' \<longrightarrow>
      VerifyToken parse c = Inl err"
    by (auto intro: VerifyToken_parse_error)
  ultimately show ?thesis
    by (simp add: strings_Split_nonempty length_strings_Split)
qed

theorem extract_token_two_segments_witness:
  "ExtractToken (request ''Bearer a.admin.token'') = ''a.admin.token'' \<and>
   ExtractToken (request ''Bearer'') = '''' \<and>
   ExtractToken (request ''Bearer a.admin.token trailing'') = '''' \<and>
   ExtractToken (request ''Bearer  a.admin.token'') = '''' \<and>
   sample_Parse '''' keyFunc = Inl (Error ''token contains an invalid number of segments'') \<and>
   VerifyToken sample_Parse (request ''Bearer  a.admin.token'') =
     Inl (Error ''token contains an invalid number of segments'')"
proof -
  have h: "\<And>a. GetHeader (request a) ''Authorization'' = a"
    by (simp add: GetHeader_def request_def)
  have p: "sample_Parse '''' keyFunc = Inl (Error ''token contains an invalid number of segments'')"
    by (simp add: sample_Parse_def sample_tokens_def)
  note t = extract_token_two_segments [where parse = sample_Parse]
  from t [of "request ''Bearer a.admin.token''"]
  have 1: "ExtractToken (request ''Bearer a.admin.token'') = ''a.admin.token''"
    by (simp add: h)
  from t [of "request ''Bearer''"]
  have 2: "ExtractToken (request ''Bearer'') = ''''"
    by (simp add: h)
  from t [of "request ''Bearer a.admin.token trailing''"]
  have 3: "ExtractToken (request ''Bearer a.admin.token trailing'') = ''''"
    by (simp add: h)
  from t [of "request ''Bearer  a.admin.token''"]
  have 4: "ExtractToken (request ''Bearer  a.admin.token'') = ''''"
    by (simp add: h)
  from t [of "request ''Bearer  a.admin.token''"] 4 p
  have 5: "VerifyToken sample_Parse (request ''Bearer  a.admin.token'') =
     Inl (Error ''token contains an invalid number of segments'')"
    by blast
  from 1 2 3 4 5 p show ?thesis by simp
qed

section \<open>The default admin\<close>

text \<open>
  Claim C10. The default admin record has an empty \<open>Password\<close> and the literal
  \<open>password\<close> as its \<open>PasswordHash\<close>. Hashing is a no-op on it whatever the bcrypt
  library is; the creation hook never returns an error on it, and the record the hook
  hands on has still the empty \<open>Password\<close> and the literal \<open>password\<close> in its hash
  field, only \<open>VerificationCode\<close> being set. \<open>createDefaultAdmin\<close> does nothing
  when the count is not zero; otherwise it ends in \<open>log.Fatalf\<close> when schema parsing
  or the insert fails, panics when the random source fails, and the only record it ever
  hands to the insert is that one.
\<close>

theorem default_admin_plaintext_hash:
  "Password (admin :: 'org User) = '''' \<and>
   PasswordHash (admin :: 'org User) = ''password'' \<and>
   hashPassword bc (admin :: 'org User) = (None, admin) \<and>
   (\<forall>err u'. User_BeforeCreate bc src (admin :: 'org User) tx \<noteq> Done (Some err, u')) \<and>
   (\<forall>u'. User_BeforeCreate bc src (admin :: 'org User) tx = Done (None, u') \<longrightarrow>
      Password u' = '''' \<and> PasswordHash u' = ''password'') \<and>
   (\<forall>f. src = Entropy f \<longrightarrow>
      User_BeforeCreate bc src (admin :: 'org User) tx =
        Done (None, admin\<lparr>VerificationCode := URLEncoding_EncodeToString (map f [0..<32])\<rparr>)) \<and>
   (createDefaultAdmin bc src schema insert_row tx count :: 'org startup) =
     (if count \<noteq> 0 then AdminExists
      else case schema of
        Some err \<Rightarrow> Fatal err
      | None \<Rightarrow>
          (case src of
             Failing err \<Rightarrow> Panicked err
           | Entropy f \<Rightarrow>
               (case insert_row
                       (admin\<lparr>VerificationCode := URLEncoding_EncodeToString (map f [0..<32])\<rparr>) of
                  Some err \<Rightarrow> Fatal err
                | None \<Rightarrow>
                    AdminCreated
                      (admin\<lparr>VerificationCode := URLEncoding_EncodeToString (map f [0..<32])\<rparr>))))"
proof (intro conjI allI impI)
  show p: "Password (admin :: 'org User) = ''''"
    by (simp add: admin_def User.defs Base.defs)
  show h: "PasswordHash (admin :: 'org User) = ''password''"
    by (simp add: admin_def User.defs Base.defs)
  show "hashPassword bc (admin :: 'org User) = (None, admin)"
    using p by (simp add: hashPassword_empty)
  show "User_BeforeCreate bc src (admin :: 'org User) tx \<noteq> Done (Some err, u')" for err u'
    using p by (simp add: User_BeforeCreate_def hashPassword_empty split: go.splits)
  have stored: "Password u' = '''' \<and> PasswordHash u' = ''password''"
    if ok: "User_BeforeCreate bc src (admin :: 'org User) tx = Done (None, u')" for u'
  proof -
    from no_password_hook_result [OF p ok] obtain bytes where
      "u' = admin\<lparr>VerificationCode := URLEncoding_EncodeToString bytes\<rparr>"
      by blast
    with p h show ?thesis by simp
  qed
  show "Password u' = ''''"
    if "User_BeforeCreate bc src (admin :: 'org User) tx = Done (None, u')" for u'
    using stored [OF that] by simp
  show "PasswordHash u' = ''password''"
    if "User_BeforeCreate bc src (admin :: 'org User) tx = Done (None, u')" for u'
    using stored [OF that] by simp
  show "User_BeforeCreate bc src (admin :: 'org User) tx =
        Done (None, admin\<lparr>VerificationCode := URLEncoding_EncodeToString (map f [0..<32])\<rparr>)"
    if "src = Entropy f" for f
    using that p
    by (simp add: User_BeforeCreate_def hashPassword_empty generateRandomString_32 rand_Read_def)
  show "(createDefaultAdmin bc src schema insert_row tx count :: 'org startup) =
     (if count \<noteq> 0 then AdminExists
      else case schema of
        Some err \<Rightarrow> Fatal err
      | None \<Rightarrow>
          (case src of
             Failing err \<Rightarrow> Panicked err
           | Entropy f \<Rightarrow>
               (case insert_row
                       (admin\<lparr>VerificationCode := URLEncoding_EncodeToString (map f [0..<32])\<rparr>) of
                  Some err \<Rightarrow> Fatal err
                | None \<Rightarrow>
                    AdminCreated
                      (admin\<lparr>VerificationCode := URLEncoding_EncodeToString (map f [0..<32])\<rparr>))))"
    using p
    by (simp add: createDefaultAdmin_def db_Create_def User_BeforeCreate_def hashPassword_empty
        generateRandomString_32 rand_Read_def split: option.splits rand_Reader.splits)
qed

theorem default_admin_plaintext_hash_witness:
  "User_BeforeCreate sample_bcrypt (Entropy ramp_stream) (admin :: unit User) no_tx =
     Done (None, (admin :: unit User)
       \<lparr>VerificationCode := ''-gEIDxYdJCsyOUBHTlVcY2pxeH-GjZSboqmwt77FzNM=''\<rparr>) \<and>
   PasswordHash ((admin :: unit User)
       \<lparr>VerificationCode := ''-gEIDxYdJCsyOUBHTlVcY2pxeH-GjZSboqmwt77FzNM=''\<rparr>) = ''password'' \<and>
   CompareHashAndPassword sample_bcrypt ''password'' ''password'' \<noteq> None \<and>
   (createDefaultAdmin sample_bcrypt (Entropy ramp_stream)
       (Some (Error ''invalid field found for struct'')) (\<lambda>row. None) no_tx 0 :: unit startup) =
     Fatal (Error ''invalid field found for struct'') \<and>
   (createDefaultAdmin sample_bcrypt (Entropy ramp_stream) None
       (\<lambda>row. if PasswordHash row = ''password'' then Some (Error ''hash is the literal password'')
              else None) no_tx 0 :: unit startup) =
     Fatal (Error ''hash is the literal password'') \<and>
   (createDefaultAdmin sample_bcrypt (Failing (Error ''EAGAIN'')) None (\<lambda>row. None) no_tx 0
       :: unit startup) = Panicked (Error ''EAGAIN'') \<and>
   (createDefaultAdmin sample_bcrypt (Entropy ramp_stream) None (\<lambda>row. None) no_tx 1
       :: unit startup) = AdminExists"
proof -
  have code: "URLEncoding_EncodeToString (map ramp_stream [0..<32]) =
     ''-gEIDxYdJCsyOUBHTlVcY2pxeH-GjZSboqmwt77FzNM=''"
    by (simp add: upt_rec ramp_stream_def encode_at_def encodeURL_def StdPadding_def)
  note inst = default_admin_plaintext_hash [where 'org = unit, of sample_bcrypt _ no_tx]
  have hash: "PasswordHash ((admin :: unit User)\<lparr>VerificationCode := v\<rparr>) = ''password''" for v
    by (simp add: admin_def User.defs Base.defs)
  from inst [of "Entropy ramp_stream" None "\<lambda>row. None" 0]
  have hook: "User_BeforeCreate sample_bcrypt (Entropy ramp_stream) (admin :: unit User) no_tx =
     Done (None, (admin :: unit User)
       \<lparr>VerificationCode := URLEncoding_EncodeToString (map ramp_stream [0..<32])\<rparr>)"
    by blast
  from inst [of "Entropy ramp_stream" "Some (Error ''invalid field found for struct'')"
      "\<lambda>row. None" 0]
  have refused: "(createDefaultAdmin sample_bcrypt (Entropy ramp_stream)
       (Some (Error ''invalid field found for struct'')) (\<lambda>row. None) no_tx 0 :: unit startup) =
     Fatal (Error ''invalid field found for struct'')"
    by simp
  from inst [of "Entropy ramp_stream" None
      "\<lambda>row. if PasswordHash row = ''password'' then Some (Error ''hash is the literal password'')
              else None" 0]
  have handed: "(createDefaultAdmin sample_bcrypt (Entropy ramp_stream) None
       (\<lambda>row. if PasswordHash row = ''password'' then Some (Error ''hash is the literal password'')
              else None) no_tx 0 :: unit startup) =
     Fatal (Error ''hash is the literal password'')"
    by (simp add: hash)
  from inst [of "Failing (Error ''EAGAIN'')" None "\<lambda>row. None" 0]
  have panic: "(createDefaultAdmin sample_bcrypt (Failing (Error ''EAGAIN'')) None (\<lambda>row. None)
       no_tx 0 :: unit startup) = Panicked (Error ''EAGAIN'')"
    by simp
  from inst [of "Entropy ramp_stream" None "\<lambda>row. None" 1]
  have exists: "(createDefaultAdmin sample_bcrypt (Entropy ramp_stream) None (\<lambda>row. None) no_tx 1
       :: unit startup) = AdminExists"
    by simp
  have cmp: "CompareHashAndPassword sample_bcrypt ''password'' ''password'' \<noteq> None"
    by (simp add: sample_bcrypt_def)
  from hook refused handed panic exists cmp show ?thesis
    by (simp add: code hash)
qed

end
